theory Spec2Isabelle
  imports Main "HOL-Library.Word" "HOL-Library.Sublist"
begin

section \<open>The chat widget of src/components/ChatBot.tsx\<close>

text \<open>
  The component \<^verbatim>\<open>ChatBot\<close> keeps four pieces of React state (\<^verbatim>\<open>isOpen\<close>,
  \<^verbatim>\<open>input\<close>, \<^verbatim>\<open>messages\<close>, \<^verbatim>\<open>isLoading\<close>), one memoised chat handle
  (\<^verbatim>\<open>chatSession\<close>) and the handlers \<^verbatim>\<open>handleSend\<close> and \<^verbatim>\<open>handleKeyPress\<close>.
  It is embedded as a state record and one function per handler. An \<^verbatim>\<open>async\<close>
  function is split at its \<^verbatim>\<open>await\<close>: the part that runs when the handler is called,
  and the part that runs when the awaited promise settles. The remote service and the
  construction of the handle are parameters of the model.
\<close>

subsection \<open>Strings\<close>

text \<open>
  A JavaScript string is a sequence of 16-bit code units. \<^verbatim>\<open>String.prototype.trim\<close>
  removes the code units of the ECMAScript productions WhiteSpace and LineTerminator
  from both ends; all of them lie in the basic plane.
\<close>

type_synonym jsstring = "16 word list"

definition lit :: "string \<Rightarrow> jsstring" where
  "lit s = map of_char s"

definition isWhiteSpace :: "16 word \<Rightarrow> bool" where
  "isWhiteSpace c =
     (c \<in> {0x0009, 0x000A, 0x000B, 0x000C, 0x000D, 0x0020, 0x00A0, 0x1680,
            0x2028, 0x2029, 0x202F, 0x205F, 0x3000, 0xFEFF}
      \<or> (0x2000 \<le> c \<and> c \<le> 0x200A))"

definition trim :: "jsstring \<Rightarrow> jsstring" where
  "trim s = rev (dropWhile isWhiteSpace (rev (dropWhile isWhiteSpace s)))"

text \<open>\<^verbatim>\<open>a || b\<close> on a possibly missing string: \<^verbatim>\<open>undefined\<close> and \<^verbatim>\<open>""\<close> are falsy.\<close>

definition or_default :: "jsstring option \<Rightarrow> jsstring \<Rightarrow> jsstring" where
  "or_default a b = (case a of None \<Rightarrow> b | Some t \<Rightarrow> if t = [] then b else t)"

subsection \<open>Data\<close>

datatype role = User | Model

record Message =
  role :: role
  text' :: jsstring

text \<open>The template literal of lines 11 to 52.\<close>

definition SYSTEM_INSTRUCTION :: jsstring where
  "SYSTEM_INSTRUCTION = lit (concat [
     ''You are the AI research assistant for the '' @ [CHR 0x22] @ ''USS-Water'' @ [CHR 0x22] @ '' website. '' @ [CHR 0x0A],
     ''Your goal is to answer questions about the paper '' @ [CHR 0x22] @ ''USS-Water: High-Resolution Satellite Mapping of U.S. Surface Water'' @ [CHR 0x22] @ '' (Scientific Reports, 2024).'' @ [CHR 0x0A],
     [CHR 0x0A],
     ''KEY FACTS:'' @ [CHR 0x0A],
     ''- Authors: Madhu Goutham Reddy Ambati (Lead), Nischal Vooda, Mohammed Sohaib Uddin, Abdul Rahman Shaikh, Mani Sai Lakshmi Karasani, M. Courtney Hughes, Mahdi Vaezi (NIU).'' @ [CHR 0x0A],
     ''- Problem: Traditional satellite water detection (Landsat/Sentinel) has low resolution (10-30m), missing small water bodies like narrow streams and ponds.'' @ [CHR 0x0A],
     ''- Dataset ('' @ [CHR 0x22] @ ''USS-Water'' @ [CHR 0x22] @ ''): '' @ [CHR 0x0A],
     ''  - Source: High-resolution RGB imagery from Google Earth Pro.'' @ [CHR 0x0A],
     ''  - Size: 1,483 images, 1.48 billion labeled pixels.'' @ [CHR 0x0A],
     ''  - Resolution: 0.3 meters/pixel.'' @ [CHR 0x0A],
     ''  - Coverage: 147 locations across 44 U.S. states.'' @ [CHR 0x0A],
     ''  - Classes (7): Rivers, Lakes, Ponds, Reservoirs, Wetlands, Creeks, Coastal.'' @ [CHR 0x0A],
     ''  - Preprocessing: '' @ [CHR 0x0A],
     ''    - Images cropped to remove map legends and UI artifacts.'' @ [CHR 0x0A],
     ''    - Sliced into smaller patches for training to fit GPU memory constraints.'' @ [CHR 0x0A],
     ''    - Data Augmentation: Techniques like rotation, flipping, and brightness adjustments were used to improve generalization.'' @ [CHR 0x0A],
     ''- Model ('' @ [CHR 0x22] @ ''U-Net+'' @ [CHR 0x22] @ ''):'' @ [CHR 0x0A],
     ''  - Architecture: Customized U-Net with efficient encoder-decoder blocks.'' @ [CHR 0x0A],
     ''  - Key Innovation 1: Patch Compression - Handles large input images by resizing and intelligent tiling, significantly reducing memory overhead.'' @ [CHR 0x0A],
     ''  - Key Innovation 2: Depth-wise Separable Convolutions - Replaces standard convolutions to reduce parameter count by ~40% and drastically speed up inference.'' @ [CHR 0x0A],
     ''- Performance:'' @ [CHR 0x0A],
     ''  - F1 Score: 93.6% (Competitive with state-of-the-art).'' @ [CHR 0x0A],
     ''  - Inference Speed: 6.0 FPS on RTX 3090 (3x faster than MSResNet-34).'' @ [CHR 0x0A],
     ''  - VRAM Usage: Highly efficient (4.2GB), allowing deployment on standard consumer hardware.'' @ [CHR 0x0A],
     ''- Comparison:'' @ [CHR 0x0A],
     ''  - MSResNet-34: Slightly higher accuracy (95.4% F1) but computationally expensive (10.7GB VRAM, 1.9 FPS).'' @ [CHR 0x0A],
     ''  - DeepLabV3+: Lower accuracy (92.0% F1) and slower (2.1 FPS).'' @ [CHR 0x0A],
     ''  - SegFormer-B0: Good balance (94.1% F1), but U-Net+ is optimized specifically for speed/accuracy trade-off in this domain.'' @ [CHR 0x0A],
     [CHR 0x0A],
     ''LIMITATIONS & ASSUMPTIONS:'' @ [CHR 0x0A],
     ''- Reliance on RGB: The model uses only Red, Green, Blue channels. It lacks Near-Infrared (NIR) bands (common in Landsat/Sentinel), yet achieves high accuracy through deep learning feature extraction.'' @ [CHR 0x0A],
     ''- Environmental Challenges: '' @ [CHR 0x0A],
     ''  - Heavy cloud cover or thick atmospheric haze can obstruct detection.'' @ [CHR 0x0A],
     ''  - Extreme shadows in dense urban canyons (skyscrapers) may occasionally result in false negatives.'' @ [CHR 0x0A],
     ''  - Frozen water bodies or snow cover in winter are not the primary target and may be misclassified.'' @ [CHR 0x0A],
     ''- Seasonality: The dataset captures specific temporal snapshots; highly ephemeral streams (dry season) might be underrepresented.'' @ [CHR 0x0A],
     [CHR 0x0A],
     ''BEHAVIOR:'' @ [CHR 0x0A],
     ''- Keep answers concise, professional, and scientific.'' @ [CHR 0x0A],
     ''- If asked about code or data availability, refer to the GitHub link provided in the interface.'' @ [CHR 0x0A],
     ''- If asked unrelated questions, politely steer the conversation back to the paper'' @ [CHR 0x27] @ ''s findings.'' @ [CHR 0x0A]])"

text \<open>
  The remote side. A handle names a chat object of the client library; \<^verbatim>\<open>exn\<close> is a
  thrown value. A \<^verbatim>\<open>gateway\<close> gives the result of the body of the \<^verbatim>\<open>try\<close> of lines
  73 to 79 (the constructor with \<^verbatim>\<open>process.env.API_KEY\<close>, then \<^verbatim>\<open>ai.chats.create\<close>)
  at its n-th execution with the given configuration: a thrown value or a handle.
\<close>

type_synonym handle = nat

datatype exn = Exn nat

record chat_config =
  model :: jsstring
  systemInstruction :: jsstring

type_synonym gateway = "nat \<Rightarrow> chat_config \<Rightarrow> exn + handle"

text \<open>A call \<^verbatim>\<open>chatSession.sendMessage({ message })\<close>.\<close>

record request =
  handle :: handle
  message :: jsstring

text \<open>
  How the promise of a \<^verbatim>\<open>sendMessage\<close> call settles: fulfilled with an object whose
  \<^verbatim>\<open>text\<close> is a string or missing, or rejected (a synchronous throw of \<^verbatim>\<open>sendMessage\<close>
  inside the \<^verbatim>\<open>try\<close> takes the same path).
\<close>

datatype outcome = Resolves "jsstring option" | Rejects exn

text \<open>
  The state: the four \<^verbatim>\<open>useState\<close> cells, the \<^verbatim>\<open>useMemo\<close> cell (\<open>None\<close> before
  the first render; \<open>Some None\<close> holds \<^verbatim>\<open>null\<close>), and the trace of the outside world:
  every attempt to build a handle, every request issued, and the requests (by their
  position in \<open>sent\<close>) whose promise has not settled yet.
\<close>

record session =
  isOpen :: bool
  input :: jsstring
  messages :: "Message list"
  isLoading :: bool
  memo :: "handle option option"
  attempts :: "chat_config list"
  sent :: "request list"
  inflight :: "nat list"

definition greeting :: Message where
  "greeting = \<lparr>role = Model,
     text' = lit (''Hi! I'' @ [CHR 0x27] @ ''m the USS-Water AI assistant. Ask me anything about the dataset, the U-Net+ model, or our results.'')\<rparr>"

definition initial :: session where
  "initial = \<lparr>isOpen = False, input = [], messages = [greeting], isLoading = False,
     memo = None, attempts = [], sent = [], inflight = []\<rparr>"

subsection \<open>Rendering: useMemo with an empty dependency list\<close>

text \<open>
  Lines 71 to 84. The factory catches whatever the construction throws and returns
  \<^verbatim>\<open>null\<close>. With the dependency list \<^verbatim>\<open>[]\<close> the factory runs at the first render
  and the stored value is returned at every later one.
\<close>

definition the_config :: chat_config where
  "the_config = \<lparr>model = lit ''gemini-3-flash-preview'', systemInstruction = SYSTEM_INSTRUCTION\<rparr>"

definition chatSession_factory :: "exn + handle \<Rightarrow> handle option" where
  "chatSession_factory r = (case r of Inl error \<Rightarrow> None | Inr chat \<Rightarrow> Some chat)"

definition render :: "gateway \<Rightarrow> session \<Rightarrow> session" where
  "render gw s =
     (case memo s of
        Some v \<Rightarrow> s
      | None \<Rightarrow>
          s\<lparr>memo := Some (chatSession_factory (gw (length (attempts s)) the_config)),
            attempts := attempts s @ [the_config]\<rparr>)"

definition chatSession :: "session \<Rightarrow> handle option" where
  "chatSession s = (case memo s of None \<Rightarrow> None | Some v \<Rightarrow> v)"

definition mount :: "gateway \<Rightarrow> session" where
  "mount gw = render gw initial"

subsection \<open>handleSend\<close>

text \<open>Line 103, up to the \<^verbatim>\<open>await\<close>: the request goes out and its promise is pending.\<close>

definition sendMessage :: "handle \<Rightarrow> jsstring \<Rightarrow> session \<Rightarrow> session" where
  "sendMessage h m s =
     s\<lparr>sent := sent s @ [\<lparr>handle = h, message = m\<rparr>],
       inflight := inflight s @ [length (sent s)]\<rparr>"

text \<open>Lines 97 to 100: the state updates before the request, in program order.\<close>

definition handleSend_updates :: "session \<Rightarrow> session" where
  "handleSend_updates s =
     (let userMessage = trim (input s);
          s1 = s\<lparr>input := []\<rparr>;
          s2 = s1\<lparr>messages := messages s1 @ [\<lparr>role = User, text' = userMessage\<rparr>]\<rparr>
      in s2\<lparr>isLoading := True\<rparr>)"

text \<open>Lines 94 to 103: what a call of \<^verbatim>\<open>handleSend\<close> does before it suspends.\<close>

definition handleSend :: "session \<Rightarrow> session" where
  "handleSend s =
     (if trim (input s) = [] \<or> chatSession s = None then s
      else case chatSession s of
             None \<Rightarrow> s
           | Some h \<Rightarrow> sendMessage h (trim (input s)) (handleSend_updates s))"

text \<open>
  Lines 103 to 112: what runs when the awaited promise settles. The \<^verbatim>\<open>try\<close> block
  either raises the rejection or appends the reply; the \<^verbatim>\<open>catch\<close> block appends the
  error text; the \<^verbatim>\<open>finally\<close> block runs after either. The first component of the
  result of \<open>handleSend_resume\<close> is the exception that leaves the function, if any.
\<close>

definition try_block :: "outcome \<Rightarrow> session \<Rightarrow> exn + session" where
  "try_block out s =
     (case out of
        Rejects e \<Rightarrow> Inl e
      | Resolves responseText \<Rightarrow>
          Inr (s\<lparr>messages := messages s @
                 [\<lparr>role = Model,
                   text' = or_default responseText
                     (lit (''I couldn'' @ [CHR 0x27] @ ''t generate a response.''))\<rparr>]\<rparr>))"

definition catch_block :: "exn \<Rightarrow> session \<Rightarrow> session" where
  "catch_block error s =
     s\<lparr>messages := messages s @
        [\<lparr>role = Model,
          text' = lit ''Sorry, I encountered an error connecting to the AI service.''\<rparr>]\<rparr>"

definition finally_block :: "session \<Rightarrow> session" where
  "finally_block s = s\<lparr>isLoading := False\<rparr>"

definition handleSend_resume :: "outcome \<Rightarrow> session \<Rightarrow> exn option \<times> session" where
  "handleSend_resume out s =
     (case try_block out s of
        Inr s' \<Rightarrow> (None, finally_block s')
      | Inl error \<Rightarrow> (None, finally_block (catch_block error s)))"

subsection \<open>Events\<close>

text \<open>
  Lines 115 to 120 and 204 to 218. The button carries
  \<^verbatim>\<open>disabled={!input.trim() || isLoading}\<close>, and a disabled button delivers no click;
  the key handler calls \<^verbatim>\<open>handleSend\<close> on Enter without Shift. Each handler runs on
  the state left by the event before it, and the component renders again after it.
\<close>

datatype key = Enter | OtherKey

datatype event =
    SetIsOpen bool
  | Change jsstring
  | KeyDown key bool
  | Click
  | Settle nat outcome

definition handleKeyPress :: "key \<Rightarrow> bool \<Rightarrow> session \<Rightarrow> session" where
  "handleKeyPress k shiftKey s = (if k = Enter \<and> \<not> shiftKey then handleSend s else s)"

definition button_disabled :: "session \<Rightarrow> bool" where
  "button_disabled s = (trim (input s) = [] \<or> isLoading s)"

definition settle :: "nat \<Rightarrow> outcome \<Rightarrow> session \<Rightarrow> session" where
  "settle r out s =
     (if r \<in> set (inflight s)
      then snd (handleSend_resume out (s\<lparr>inflight := removeAll r (inflight s)\<rparr>))
      else s)"

fun dispatch :: "event \<Rightarrow> session \<Rightarrow> session" where
  "dispatch (SetIsOpen b) s = s\<lparr>isOpen := b\<rparr>"
| "dispatch (Change v) s = s\<lparr>input := v\<rparr>"
| "dispatch (KeyDown k shiftKey) s = handleKeyPress k shiftKey s"
| "dispatch Click s = (if button_disabled s then s else handleSend s)"
| "dispatch (Settle r out) s = settle r out s"

definition step :: "gateway \<Rightarrow> event \<Rightarrow> session \<Rightarrow> session" where
  "step gw e s = render gw (dispatch e s)"

definition run :: "gateway \<Rightarrow> event list \<Rightarrow> session \<Rightarrow> session" where
  "run gw evs s = fold (step gw) evs s"

subsection \<open>Events that send nothing and settle nothing\<close>

text \<open>
  Every event except an Enter keystroke without Shift and the settlement of a request.
\<close>

fun quiet :: "event \<Rightarrow> bool" where
  "quiet (KeyDown Enter False) = False"
| "quiet (Settle r out) = False"
| "quiet e = True"

section \<open>Properties\<close>

subsection \<open>Auxiliary facts\<close>

lemma trim_Nil_iff: "trim s = [] \<longleftrightarrow> (\<forall>c\<in>set s. isWhiteSpace c)"
proof (cases "dropWhile isWhiteSpace s")
  case Nil
  then have "\<forall>c\<in>set s. isWhiteSpace c"
    by (simp add: dropWhile_eq_Nil_conv)
  then show ?thesis unfolding trim_def Nil by simp
next
  case (Cons a as)
  then have "\<not> isWhiteSpace (hd (dropWhile isWhiteSpace s))"
    using hd_dropWhile [of isWhiteSpace s] by simp
  with Cons have "\<exists>x\<in>set (dropWhile isWhiteSpace s). \<not> isWhiteSpace x"
    by auto
  moreover from Cons have "\<not> (\<forall>c\<in>set s. isWhiteSpace c)"
    by (metis dropWhile_eq_Nil_conv list.distinct(1))
  ultimately have "dropWhile isWhiteSpace (rev (dropWhile isWhiteSpace s)) \<noteq> []"
    by (simp add: dropWhile_eq_Nil_conv)
  with \<open>\<not> (\<forall>c\<in>set s. isWhiteSpace c)\<close> show ?thesis
    unfolding trim_def by blast
qed

lemma handleSend_accepted:
  "chatSession s = Some h \<Longrightarrow> trim (input s) \<noteq> [] \<Longrightarrow>
   handleSend s =
     s\<lparr>input := [],
       messages := messages s @ [\<lparr>role = User, text' = trim (input s)\<rparr>],
       isLoading := True,
       sent := sent s @ [\<lparr>handle = h, message = trim (input s)\<rparr>],
       inflight := inflight s @ [length (sent s)]\<rparr>"
  by (simp add: handleSend_def handleSend_updates_def sendMessage_def Let_def)

lemma handleSend_rejected:
  "chatSession s = None \<or> trim (input s) = [] \<Longrightarrow> handleSend s = s"
  by (auto simp: handleSend_def)

lemma handleSend_resume_eq:
  "handleSend_resume out s =
     (None, s\<lparr>messages := messages s @
        [\<lparr>role = Model,
          text' = (case out of
              Resolves t \<Rightarrow> or_default t (lit (''I couldn'' @ [CHR 0x27] @ ''t generate a response.''))
            | Rejects e \<Rightarrow> lit ''Sorry, I encountered an error connecting to the AI service.'')\<rparr>],
        isLoading := False\<rparr>)"
  by (cases out) (simp_all add: handleSend_resume_def try_block_def catch_block_def finally_block_def)

lemma render_mounted: "memo s = Some v \<Longrightarrow> render gw s = s"
  by (simp add: render_def)

lemma render_fields [simp]:
  "messages (render gw s) = messages s"
  "sent (render gw s) = sent s"
  "inflight (render gw s) = inflight s"
  "isLoading (render gw s) = isLoading s"
  "input (render gw s) = input s"
  "isOpen (render gw s) = isOpen s"
  by (simp_all add: render_def split: option.splits)

lemma memo_handleSend [simp]: "memo (handleSend s) = memo s"
  by (simp add: handleSend_def handleSend_updates_def sendMessage_def Let_def split: option.splits)

lemma attempts_handleSend [simp]: "attempts (handleSend s) = attempts s"
  by (simp add: handleSend_def handleSend_updates_def sendMessage_def Let_def split: option.splits)

lemma memo_settle [simp]: "memo (settle r out s) = memo s"
  by (simp add: settle_def handleSend_resume_eq)

lemma attempts_settle [simp]: "attempts (settle r out s) = attempts s"
  by (simp add: settle_def handleSend_resume_eq)

lemma memo_dispatch [simp]: "memo (dispatch e s) = memo s"
  by (cases e) (simp_all add: handleKeyPress_def)

lemma attempts_dispatch [simp]: "attempts (dispatch e s) = attempts s"
  by (cases e) (simp_all add: handleKeyPress_def)

lemma step_mounted: "memo s = Some v \<Longrightarrow> step gw e s = dispatch e s"
  by (simp add: step_def render_mounted)

lemma run_Nil [simp]: "run gw [] s = s"
  by (simp add: run_def)

lemma run_Cons [simp]: "run gw (e # evs) s = run gw evs (step gw e s)"
  by (simp add: run_def)

lemma run_mounted:
  "memo s = Some v \<Longrightarrow> memo (run gw evs s) = Some v \<and> attempts (run gw evs s) = attempts s"
  by (induction evs arbitrary: s) (simp_all add: step_mounted)

lemma settle_inflight:
  "r \<in> set (inflight s) \<Longrightarrow>
   settle r out s = snd (handleSend_resume out (s\<lparr>inflight := removeAll r (inflight s)\<rparr>))"
  by (simp add: settle_def)

lemma quiet_dispatch:
  assumes "quiet e" "isLoading s"
  shows "isLoading (dispatch e s) \<and> messages (dispatch e s) = messages s
         \<and> sent (dispatch e s) = sent s \<and> inflight (dispatch e s) = inflight s"
proof (cases e)
  case (KeyDown k shiftKey)
  with assms(1) show ?thesis
    by (cases k; cases shiftKey) (simp_all add: handleKeyPress_def assms(2))
next
  case Click
  with assms(2) show ?thesis by (simp add: button_disabled_def)
qed (use assms in simp_all)

lemma quiet_run:
  "list_all quiet evs \<Longrightarrow> isLoading s \<Longrightarrow>
   isLoading (run gw evs s) \<and> messages (run gw evs s) = messages s
   \<and> sent (run gw evs s) = sent s \<and> inflight (run gw evs s) = inflight s"
proof (induction evs arbitrary: s)
  case Nil
  then show ?case by simp
next
  case (Cons e evs)
  from Cons.prems have q: "quiet e" and qs: "list_all quiet evs" by simp_all
  from quiet_dispatch [OF q Cons.prems(2)]
  have d: "isLoading (step gw e s)" "messages (step gw e s) = messages s"
    "sent (step gw e s) = sent s" "inflight (step gw e s) = inflight s"
    by (simp_all add: step_def)
  from Cons.IH [OF qs d(1)] d show ?case by simp
qed

lemma disabled_dispatch:
  assumes "memo s = Some None" and "inflight s = []"
  shows "messages (dispatch e s) = messages s \<and> sent (dispatch e s) = sent s
         \<and> inflight (dispatch e s) = []"
proof -
  from assms(1) have "handleSend s = s"
    by (simp add: handleSend_rejected chatSession_def)
  with assms(2) show ?thesis
    by (cases e) (simp_all add: handleKeyPress_def settle_def)
qed

lemma disabled_run:
  "memo s = Some None \<Longrightarrow> inflight s = [] \<Longrightarrow>
   memo (run gw evs s) = Some None \<and> messages (run gw evs s) = messages s
   \<and> sent (run gw evs s) = sent s \<and> inflight (run gw evs s) = []
   \<and> attempts (run gw evs s) = attempts s"
proof (induction evs arbitrary: s)
  case Nil
  then show ?case by simp
next
  case (Cons e evs)
  have st: "step gw e s = dispatch e s"
    by (simp add: step_mounted Cons.prems(1))
  from disabled_dispatch [OF Cons.prems, of e] Cons.prems(1)
  have d: "memo (step gw e s) = Some None" "inflight (step gw e s) = []"
    "messages (step gw e s) = messages s" "sent (step gw e s) = sent s"
    "attempts (step gw e s) = attempts s"
    by (simp_all add: st)
  from Cons.IH [OF d(1,2)] d show ?case by simp
qed

lemma prefix_handleSend: "prefix (messages s) (messages (handleSend s))"
  by (simp add: handleSend_def handleSend_updates_def sendMessage_def Let_def split: option.splits)

lemma prefix_settle: "prefix (messages s) (messages (settle r out s))"
  by (simp add: settle_def handleSend_resume_eq)

lemma prefix_dispatch: "prefix (messages s) (messages (dispatch e s))"
  by (cases e) (simp_all add: handleKeyPress_def prefix_handleSend prefix_settle)

lemma prefix_step: "prefix (messages s) (messages (step gw e s))"
  by (simp add: step_def prefix_dispatch)

lemma prefix_run: "prefix (messages s) (messages (run gw evs s))"
proof (induction evs arbitrary: s)
  case Nil
  show ?case by simp
next
  case (Cons e evs)
  have "prefix (messages s) (messages (step gw e s))" by (rule prefix_step)
  also have "prefix (messages (step gw e s)) (messages (run gw evs (step gw e s)))"
    by (rule Cons.IH)
  finally show ?case by simp
qed

lemma handle_dispatch:
  assumes "\<forall>q\<in>set (sent s). chatSession s = Some (handle q)"
  shows "\<forall>q\<in>set (sent (dispatch e s)). chatSession s = Some (handle q)"
proof -
  have hs: "\<forall>q\<in>set (sent (handleSend s)). chatSession s = Some (handle q)"
    using assms
    by (auto simp: handleSend_def handleSend_updates_def sendMessage_def Let_def
        split: option.splits)
  have st: "sent (settle r out s) = sent s" for r out
    by (simp add: settle_def handleSend_resume_eq)
  show ?thesis
    using assms hs by (cases e) (simp_all add: handleKeyPress_def st)
qed

lemma handle_run:
  "memo s = Some v \<Longrightarrow> \<forall>q\<in>set (sent s). v = Some (handle q) \<Longrightarrow>
   \<forall>q\<in>set (sent (run gw evs s)). v = Some (handle q)"
proof (induction evs arbitrary: s)
  case Nil
  then show ?case by simp
next
  case (Cons e evs)
  have cs: "chatSession s = v" by (simp add: chatSession_def Cons.prems(1))
  have st: "step gw e s = dispatch e s" by (simp add: step_mounted Cons.prems(1))
  from handle_dispatch [of s e] Cons.prems(2)
  have "\<forall>q\<in>set (sent (step gw e s)). v = Some (handle q)"
    by (simp add: cs st)
  moreover have "memo (step gw e s) = Some v" by (simp add: st Cons.prems(1))
  ultimately show ?case using Cons.IH by simp
qed

text \<open>
  An accepted send followed by the settlement of its request, with only events in
  between that neither send nor settle.
\<close>

lemma quiet_send_appends_two:
  assumes "chatSession s = Some h" and "trim (input s) \<noteq> []" and "list_all quiet evs"
  shows "\<exists>t. messages (settle (length (sent s)) out (run gw evs (handleSend s)))
            = messages s @ [\<lparr>role = User, text' = trim (input s)\<rparr>, \<lparr>role = Model, text' = t\<rparr>]
         \<and> length (messages (settle (length (sent s)) out (run gw evs (handleSend s))))
            = length (messages s) + 2
         \<and> \<not> isLoading (settle (length (sent s)) out (run gw evs (handleSend s)))"
proof -
  let ?s1 = "handleSend s"
  let ?s2 = "run gw evs ?s1"
  have s1: "isLoading ?s1"
    "messages ?s1 = messages s @ [\<lparr>role = User, text' = trim (input s)\<rparr>]"
    "inflight ?s1 = inflight s @ [length (sent s)]"
    by (simp_all add: handleSend_accepted [OF assms(1,2)])
  from quiet_run [OF assms(3) s1(1), of gw] s1
  have s2: "messages ?s2 = messages s @ [\<lparr>role = User, text' = trim (input s)\<rparr>]"
    "length (sent s) \<in> set (inflight ?s2)"
    by simp_all
  show ?thesis
    by (simp add: settle_inflight [OF s2(2)] handleSend_resume_eq s2(1))
qed

subsection \<open>Claims\<close>

text \<open>
  C1. A send issued while a request is in flight should be rejected. The button is
  disabled while \<^verbatim>\<open>isLoading\<close> holds, but \<^verbatim>\<open>handleSend\<close> itself does not test
  \<^verbatim>\<open>isLoading\<close>, and the key handler calls it directly. The evaluation below types
  \<open>a\<close>, presses Enter, types \<open>b\<close> and presses Enter again before the first request
  settles: the second keystroke appends a second user turn and issues a second request,
  so two requests are in flight at once. A click in the same state does nothing.
\<close>

theorem enter_while_loading_sends_again:
  "isLoading (run (\<lambda>n c. Inr 7) [SetIsOpen True, Change (lit ''a''), KeyDown Enter False]
      (mount (\<lambda>n c. Inr 7)))
   \<and> inflight (run (\<lambda>n c. Inr 7) [SetIsOpen True, Change (lit ''a''), KeyDown Enter False]
      (mount (\<lambda>n c. Inr 7))) = [0]
   \<and> inflight (run (\<lambda>n c. Inr 7)
        [SetIsOpen True, Change (lit ''a''), KeyDown Enter False, Change (lit ''b''), KeyDown Enter False]
        (mount (\<lambda>n c. Inr 7))) = [0, 1]
   \<and> sent (run (\<lambda>n c. Inr 7)
        [SetIsOpen True, Change (lit ''a''), KeyDown Enter False, Change (lit ''b''), KeyDown Enter False]
        (mount (\<lambda>n c. Inr 7)))
       = [\<lparr>handle = 7, message = lit ''a''\<rparr>, \<lparr>handle = 7, message = lit ''b''\<rparr>]
   \<and> messages (run (\<lambda>n c. Inr 7)
        [SetIsOpen True, Change (lit ''a''), KeyDown Enter False, Change (lit ''b''), KeyDown Enter False]
        (mount (\<lambda>n c. Inr 7)))
       = [greeting, \<lparr>role = User, text' = lit ''a''\<rparr>, \<lparr>role = User, text' = lit ''b''\<rparr>]
   \<and> run (\<lambda>n c. Inr 7)
        [SetIsOpen True, Change (lit ''a''), KeyDown Enter False, Change (lit ''b''), Click]
        (mount (\<lambda>n c. Inr 7))
     = run (\<lambda>n c. Inr 7)
        [SetIsOpen True, Change (lit ''a''), KeyDown Enter False, Change (lit ''b'')]
        (mount (\<lambda>n c. Inr 7))"
  by (simp add: step_def render_def mount_def initial_def chatSession_factory_def
        handleSend_def handleSend_updates_def sendMessage_def chatSession_def Let_def
        handleKeyPress_def button_disabled_def trim_def lit_def isWhiteSpace_def)

text \<open>
  C2. An accepted send should leave the transcript exactly two turns longer once its
  request settles: the user turn, then one assistant turn. The evaluation below starts
  from the state after opening the widget and typing \<open>a\<close>: the handle exists, nothing
  is loading and nothing is in flight. The send is accepted; before its request settles
  the user types \<open>b\<close> and presses Enter, which \<^verbatim>\<open>handleSend\<close> accepts as well since
  it does not test \<^verbatim>\<open>isLoading\<close>. When the first request settles the transcript is
  three turns longer, two user turns followed by the reply, and \<^verbatim>\<open>isLoading\<close> is
  false although the second request is still in flight.
\<close>

theorem send_then_enter_appends_three:
  "chatSession (run (\<lambda>n c. Inr 7) [SetIsOpen True, Change (lit ''a'')] (mount (\<lambda>n c. Inr 7))) = Some 7
   \<and> trim (input (run (\<lambda>n c. Inr 7) [SetIsOpen True, Change (lit ''a'')] (mount (\<lambda>n c. Inr 7)))) = lit ''a''
   \<and> isLoading (run (\<lambda>n c. Inr 7) [SetIsOpen True, Change (lit ''a'')] (mount (\<lambda>n c. Inr 7))) = False
   \<and> inflight (run (\<lambda>n c. Inr 7) [SetIsOpen True, Change (lit ''a'')] (mount (\<lambda>n c. Inr 7))) = []
   \<and> messages (run (\<lambda>n c. Inr 7) [SetIsOpen True, Change (lit ''a'')] (mount (\<lambda>n c. Inr 7))) = [greeting]
   \<and> messages (settle 0 (Resolves (Some (lit ''r'')))
        (run (\<lambda>n c. Inr 7) [Change (lit ''b''), KeyDown Enter False]
          (handleSend (run (\<lambda>n c. Inr 7) [SetIsOpen True, Change (lit ''a'')] (mount (\<lambda>n c. Inr 7))))))
       = [greeting, \<lparr>role = User, text' = lit ''a''\<rparr>, \<lparr>role = User, text' = lit ''b''\<rparr>,
          \<lparr>role = Model, text' = lit ''r''\<rparr>]
   \<and> length (messages (settle 0 (Resolves (Some (lit ''r'')))
        (run (\<lambda>n c. Inr 7) [Change (lit ''b''), KeyDown Enter False]
          (handleSend (run (\<lambda>n c. Inr 7) [SetIsOpen True, Change (lit ''a'')] (mount (\<lambda>n c. Inr 7)))))))
       = length (messages (run (\<lambda>n c. Inr 7) [SetIsOpen True, Change (lit ''a'')] (mount (\<lambda>n c. Inr 7)))) + 3
   \<and> isLoading (settle 0 (Resolves (Some (lit ''r'')))
        (run (\<lambda>n c. Inr 7) [Change (lit ''b''), KeyDown Enter False]
          (handleSend (run (\<lambda>n c. Inr 7) [SetIsOpen True, Change (lit ''a'')] (mount (\<lambda>n c. Inr 7))))))
       = False
   \<and> inflight (settle 0 (Resolves (Some (lit ''r'')))
        (run (\<lambda>n c. Inr 7) [Change (lit ''b''), KeyDown Enter False]
          (handleSend (run (\<lambda>n c. Inr 7) [SetIsOpen True, Change (lit ''a'')] (mount (\<lambda>n c. Inr 7))))))
       = [1]"
  by (simp add: step_def render_def mount_def initial_def chatSession_factory_def
        handleSend_def handleSend_updates_def sendMessage_def chatSession_def Let_def
        settle_def handleSend_resume_eq handleKeyPress_def or_default_def
        trim_def lit_def isWhiteSpace_def)

text \<open>
  C3. For an accepted send, when the request is fulfilled with a missing or an empty
  text the appended assistant turn reads "I couldn't generate a response."; when the
  request is rejected it reads "Sorry, I encountered an error connecting to the AI
  service."; and no exception leaves \<^verbatim>\<open>handleSend\<close>, whatever the outcome.
\<close>

theorem fallback_texts:
  assumes "chatSession s = Some h" and "trim (input s) \<noteq> []"
  shows "messages (settle (length (sent s)) (Resolves None) (handleSend s))
           = messages s @ [\<lparr>role = User, text' = trim (input s)\<rparr>,
               \<lparr>role = Model, text' = lit (''I couldn'' @ [CHR 0x27] @ ''t generate a response.'')\<rparr>]
       \<and> messages (settle (length (sent s)) (Resolves (Some [])) (handleSend s))
           = messages s @ [\<lparr>role = User, text' = trim (input s)\<rparr>,
               \<lparr>role = Model, text' = lit (''I couldn'' @ [CHR 0x27] @ ''t generate a response.'')\<rparr>]
       \<and> messages (settle (length (sent s)) (Rejects e) (handleSend s))
           = messages s @ [\<lparr>role = User, text' = trim (input s)\<rparr>,
               \<lparr>role = Model, text' = lit ''Sorry, I encountered an error connecting to the AI service.''\<rparr>]
       \<and> fst (handleSend_resume out s') = None"
  by (simp add: handleSend_accepted [OF assms] settle_def handleSend_resume_eq or_default_def)

theorem fallback_texts_witness:
  "chatSession (mount (\<lambda>n c. Inr 3)\<lparr>input := lit ''X''\<rparr>) = Some 3
   \<and> trim (input (mount (\<lambda>n c. Inr 3)\<lparr>input := lit ''X''\<rparr>)) \<noteq> []
   \<and> messages (settle 0 (Resolves (Some [])) (handleSend (mount (\<lambda>n c. Inr 3)\<lparr>input := lit ''X''\<rparr>)))
       = [greeting, \<lparr>role = User, text' = lit ''X''\<rparr>,
          \<lparr>role = Model, text' = lit (''I couldn'' @ [CHR 0x27] @ ''t generate a response.'')\<rparr>]
   \<and> messages (settle 0 (Rejects (Exn 0)) (handleSend (mount (\<lambda>n c. Inr 3)\<lparr>input := lit ''X''\<rparr>)))
       = [greeting, \<lparr>role = User, text' = lit ''X''\<rparr>,
          \<lparr>role = Model, text' = lit ''Sorry, I encountered an error connecting to the AI service.''\<rparr>]"
proof -
  let ?s = "mount (\<lambda>n c. Inr 3)\<lparr>input := lit ''X''\<rparr>"
  have a: "chatSession ?s = Some 3"
    by (simp add: chatSession_def mount_def render_def initial_def chatSession_factory_def)
  have b: "trim (input ?s) \<noteq> []" and b': "trim (input ?s) = lit ''X''"
    by (simp_all add: trim_def lit_def isWhiteSpace_def)
  have m: "messages ?s = [greeting]" "sent ?s = []"
    by (simp_all add: mount_def initial_def)
  from fallback_texts [OF a b, of "Exn 0"] a b show ?thesis
    unfolding m b' by simp
qed

text \<open>
  C4. Settling an outstanding request sets \<^verbatim>\<open>isLoading\<close> to false on every path
  (reply with text, reply without text, rejection). In particular an accepted send sets
  \<^verbatim>\<open>isLoading\<close>, leaves its request outstanding, and the settlement of that request
  clears \<^verbatim>\<open>isLoading\<close> again.
\<close>

theorem isLoading_released:
  "(r \<in> set (inflight s) \<longrightarrow>
      \<not> isLoading (settle r out s) \<and> \<not> isLoading (step gw (Settle r out) s))
   \<and> (chatSession s = Some h \<and> trim (input s) \<noteq> [] \<longrightarrow>
        isLoading (handleSend s) \<and> length (sent s) \<in> set (inflight (handleSend s))
        \<and> \<not> isLoading (settle (length (sent s)) out (handleSend s)))
   \<and> \<not> isLoading (snd (handleSend_resume out s))"
proof (intro conjI impI)
  assume "chatSession s = Some h \<and> trim (input s) \<noteq> []"
  then have acc: "chatSession s = Some h" "trim (input s) \<noteq> []" by simp_all
  show "isLoading (handleSend s)" "length (sent s) \<in> set (inflight (handleSend s))"
    "\<not> isLoading (settle (length (sent s)) out (handleSend s))"
    by (simp_all add: handleSend_accepted [OF acc] settle_def handleSend_resume_eq)
qed (simp_all add: settle_def step_def handleSend_resume_eq)

theorem isLoading_released_witness:
  "0 \<in> set (inflight (handleSend (mount (\<lambda>n c. Inr 3)\<lparr>input := lit ''X''\<rparr>)))
   \<and> \<not> isLoading (step (\<lambda>n c. Inr 3) (Settle 0 (Rejects (Exn 1)))
          (handleSend (mount (\<lambda>n c. Inr 3)\<lparr>input := lit ''X''\<rparr>)))
   \<and> chatSession (mount (\<lambda>n c. Inr 3)\<lparr>input := lit ''X''\<rparr>) = Some 3
   \<and> trim (input (mount (\<lambda>n c. Inr 3)\<lparr>input := lit ''X''\<rparr>)) \<noteq> []
   \<and> isLoading (handleSend (mount (\<lambda>n c. Inr 3)\<lparr>input := lit ''X''\<rparr>))
   \<and> \<not> isLoading (settle 0 (Rejects (Exn 1)) (handleSend (mount (\<lambda>n c. Inr 3)\<lparr>input := lit ''X''\<rparr>)))"
proof -
  let ?s = "mount (\<lambda>n c. Inr 3)\<lparr>input := lit ''X''\<rparr>"
  have a: "chatSession ?s = Some 3"
    by (simp add: chatSession_def mount_def render_def initial_def chatSession_factory_def)
  have b: "trim (input ?s) \<noteq> []"
    by (simp add: trim_def lit_def isWhiteSpace_def)
  have m: "sent ?s = []"
    by (simp add: mount_def initial_def)
  from isLoading_released [of 0 ?s "Rejects (Exn 1)" "\<lambda>n c. Inr 3" 3] a b
  have c: "0 \<in> set (inflight (handleSend ?s))" "isLoading (handleSend ?s)"
    "\<not> isLoading (settle 0 (Rejects (Exn 1)) (handleSend ?s))"
    unfolding m by simp_all
  from isLoading_released [of 0 "handleSend ?s" "Rejects (Exn 1)" "\<lambda>n c. Inr 3" 3] c(1)
  have "\<not> isLoading (step (\<lambda>n c. Inr 3) (Settle 0 (Rejects (Exn 1))) (handleSend ?s))"
    by simp
  with a b c show ?thesis by simp
qed

text \<open>
  C5. When the input consists of white space only (the empty string included),
  \<^verbatim>\<open>handleSend\<close> changes nothing: the transcript, \<^verbatim>\<open>isLoading\<close> and the requests
  issued stay as they are, through the key handler and through the button as well.
\<close>

theorem blank_input_noop:
  assumes "\<forall>c\<in>set (input s). isWhiteSpace c"
  shows "handleSend s = s \<and> dispatch (KeyDown k shiftKey) s = s \<and> dispatch Click s = s
         \<and> messages (handleSend s) = messages s \<and> isLoading (handleSend s) = isLoading s
         \<and> sent (handleSend s) = sent s \<and> inflight (handleSend s) = inflight s"
proof -
  from assms have "trim (input s) = []" by (simp add: trim_Nil_iff)
  then have "handleSend s = s" by (simp add: handleSend_rejected)
  then show ?thesis by (simp add: handleKeyPress_def)
qed

theorem blank_input_noop_witness:
  "list_all isWhiteSpace (input (mount (\<lambda>n c. Inr 3)\<lparr>input := [0x20, 0x09, 0x3000, 0x0A]\<rparr>))
   \<and> handleSend (mount (\<lambda>n c. Inr 3)\<lparr>input := [0x20, 0x09, 0x3000, 0x0A]\<rparr>)
       = mount (\<lambda>n c. Inr 3)\<lparr>input := [0x20, 0x09, 0x3000, 0x0A]\<rparr>
   \<and> handleSend (mount (\<lambda>n c. Inr 3)\<lparr>input := []\<rparr>) = mount (\<lambda>n c. Inr 3)\<lparr>input := []\<rparr>"
proof -
  have a: "\<forall>c\<in>set (input (mount (\<lambda>n c. Inr 3)\<lparr>input := [0x20, 0x09, 0x3000, 0x0A]\<rparr>)). isWhiteSpace c"
    by (simp add: isWhiteSpace_def)
  have b: "\<forall>c\<in>set (input (mount (\<lambda>n c. Inr 3)\<lparr>input := []\<rparr>)). isWhiteSpace c"
    by simp
  from blank_input_noop [OF a] blank_input_noop [OF b] a show ?thesis
    by (simp add: list_all_iff)
qed

text \<open>
  C6. When the construction of the handle throws, the factory returns \<^verbatim>\<open>null\<close> and
  the component is mounted all the same. After any sequence of events the handle is
  still missing, the transcript is exactly the greeting, no request has been issued, and
  the construction has been attempted once.
\<close>

theorem disabled_session_inert:
  assumes "gw 0 the_config = Inl e"
  shows "chatSession (run gw evs (mount gw)) = None
         \<and> messages (run gw evs (mount gw)) = [greeting]
         \<and> sent (run gw evs (mount gw)) = []
         \<and> inflight (run gw evs (mount gw)) = []
         \<and> attempts (run gw evs (mount gw)) = [the_config]"
proof -
  have m: "memo (mount gw) = Some None" "inflight (mount gw) = []"
    "messages (mount gw) = [greeting]" "sent (mount gw) = []" "attempts (mount gw) = [the_config]"
    by (simp_all add: mount_def render_def initial_def chatSession_factory_def assms)
  from disabled_run [OF m(1,2), of gw evs] m show ?thesis
    by (simp add: chatSession_def)
qed

theorem disabled_session_inert_witness:
  "(\<lambda>n c. Inl (Exn 0)) (0::nat) the_config = (Inl (Exn 0) :: exn + handle)
   \<and> messages (run (\<lambda>n c. Inl (Exn 0))
        [SetIsOpen True, Change (lit ''hello''), KeyDown Enter False, Click, Settle 0 (Resolves None)]
        (mount (\<lambda>n c. Inl (Exn 0)))) = [greeting]
   \<and> sent (run (\<lambda>n c. Inl (Exn 0))
        [SetIsOpen True, Change (lit ''hello''), KeyDown Enter False, Click, Settle 0 (Resolves None)]
        (mount (\<lambda>n c. Inl (Exn 0)))) = []"
  using disabled_session_inert [of "\<lambda>n c. Inl (Exn 0)" "Exn 0"
      "[SetIsOpen True, Change (lit ''hello''), KeyDown Enter False, Click, Settle 0 (Resolves None)]"]
  by simp

text \<open>
  C7. The transcript starts as the greeting alone, with no request issued. Every event,
  and so every sequence of events, leaves the old transcript as a prefix of the new one:
  turns are appended at the end and none is changed or removed, whatever the outcome of
  a request.
\<close>

theorem transcript_append_only:
  "messages (mount gw) = [greeting] \<and> sent (mount gw) = []
   \<and> prefix (messages s) (messages (step gw e s))
   \<and> prefix (messages s) (messages (run gw evs s))
   \<and> prefix [greeting] (messages (run gw evs (mount gw)))"
proof -
  have m: "messages (mount gw) = [greeting]" "sent (mount gw) = []"
    by (simp_all add: mount_def initial_def)
  from prefix_run [of "mount gw" gw evs] m(1)
  have "prefix [greeting] (messages (run gw evs (mount gw)))" by simp
  with m show ?thesis by (simp add: prefix_step prefix_run)
qed

text \<open>
  C8. An accepted send issues exactly one request, on the session's handle, whose only
  payload is the trimmed input, the same text as the user turn it appends. Nothing else
  is issued until that request has settled, whatever events that send nothing occur in
  between, and the settlement issues nothing.
\<close>

theorem send_issues_one_request:
  assumes "chatSession s = Some h" and "trim (input s) \<noteq> []" and "list_all quiet evs"
  shows "sent (handleSend s) = sent s @ [\<lparr>handle = h, message = trim (input s)\<rparr>]
         \<and> messages (handleSend s) = messages s @ [\<lparr>role = User, text' = trim (input s)\<rparr>]
         \<and> sent (settle (length (sent s)) out (run gw evs (handleSend s)))
             = sent s @ [\<lparr>handle = h, message = trim (input s)\<rparr>]"
proof -
  have s1: "isLoading (handleSend s)"
    "sent (handleSend s) = sent s @ [\<lparr>handle = h, message = trim (input s)\<rparr>]"
    "messages (handleSend s) = messages s @ [\<lparr>role = User, text' = trim (input s)\<rparr>]"
    by (simp_all add: handleSend_accepted [OF assms(1,2)])
  from quiet_run [OF assms(3) s1(1), of gw]
  have "sent (run gw evs (handleSend s)) = sent (handleSend s)" by simp
  then have "sent (settle (length (sent s)) out (run gw evs (handleSend s))) = sent (handleSend s)"
    by (simp add: settle_def handleSend_resume_eq)
  with s1 show ?thesis by simp
qed

theorem send_issues_one_request_witness:
  "chatSession (mount (\<lambda>n c. Inr 3)\<lparr>input := lit '' what is F1? ''\<rparr>) = Some 3
   \<and> trim (input (mount (\<lambda>n c. Inr 3)\<lparr>input := lit '' what is F1? ''\<rparr>)) \<noteq> []
   \<and> list_all quiet [SetIsOpen False, Change (lit ''next'')]
   \<and> sent (handleSend (mount (\<lambda>n c. Inr 3)\<lparr>input := lit '' what is F1? ''\<rparr>))
       = [\<lparr>handle = 3, message = lit ''what is F1?''\<rparr>]
   \<and> sent (settle 0 (Resolves (Some (lit ''93.6%'')))
        (run (\<lambda>n c. Inr 3) [SetIsOpen False, Change (lit ''next'')]
          (handleSend (mount (\<lambda>n c. Inr 3)\<lparr>input := lit '' what is F1? ''\<rparr>))))
       = [\<lparr>handle = 3, message = lit ''what is F1?''\<rparr>]"
proof -
  let ?s = "mount (\<lambda>n c. Inr 3)\<lparr>input := lit '' what is F1? ''\<rparr>"
  have a: "chatSession ?s = Some 3"
    by (simp add: chatSession_def mount_def render_def initial_def chatSession_factory_def)
  have b: "trim (input ?s) \<noteq> []" and b': "trim (input ?s) = lit ''what is F1?''"
    by (simp_all add: trim_def lit_def isWhiteSpace_def)
  have c: "list_all quiet [SetIsOpen False, Change (lit ''next'')]" by simp
  have m: "sent ?s = []"
    by (simp add: mount_def initial_def)
  from send_issues_one_request [OF a b c, of "Resolves (Some (lit ''93.6%''))" "\<lambda>n c. Inr 3"] a b c
  show ?thesis unfolding m b' by simp
qed

text \<open>
  C9. \<^verbatim>\<open>handleSend\<close> changes the input exactly when it accepts the send (the handle
  exists and the trimmed input is not empty). Then the input is the empty string, and it
  is already empty in the state in which the request is issued, where no request has
  been added yet. A rejected send leaves the whole state, and so the input, unchanged.
\<close>

theorem input_cleared_iff_accepted:
  "(input (handleSend s) \<noteq> input s) = (chatSession s \<noteq> None \<and> trim (input s) \<noteq> [])
   \<and> (chatSession s \<noteq> None \<and> trim (input s) \<noteq> [] \<longrightarrow>
        input (handleSend s) = [] \<and> input (handleSend_updates s) = []
        \<and> sent (handleSend_updates s) = sent s
        \<and> (\<exists>h. handleSend s = sendMessage h (trim (input s)) (handleSend_updates s)))
   \<and> (chatSession s = None \<or> trim (input s) = [] \<longrightarrow> handleSend s = s)"
proof -
  have ne: "trim (input s) \<noteq> [] \<Longrightarrow> input s \<noteq> []"
    by (auto simp: trim_def)
  show ?thesis
    using ne
    by (auto simp: handleSend_def handleSend_updates_def sendMessage_def Let_def
        split: option.splits)
qed

theorem input_cleared_iff_accepted_witness:
  "chatSession (mount (\<lambda>n c. Inr 3)\<lparr>input := lit '' hi ''\<rparr>) \<noteq> None
   \<and> trim (input (mount (\<lambda>n c. Inr 3)\<lparr>input := lit '' hi ''\<rparr>)) \<noteq> []
   \<and> input (handleSend (mount (\<lambda>n c. Inr 3)\<lparr>input := lit '' hi ''\<rparr>)) = []
   \<and> chatSession (mount (\<lambda>n c. Inl (Exn 0))\<lparr>input := lit '' hi ''\<rparr>) = None
   \<and> input (handleSend (mount (\<lambda>n c. Inl (Exn 0))\<lparr>input := lit '' hi ''\<rparr>)) = lit '' hi ''
   \<and> trim (input (mount (\<lambda>n c. Inr 3)\<lparr>input := lit ''  ''\<rparr>)) = []
   \<and> input (handleSend (mount (\<lambda>n c. Inr 3)\<lparr>input := lit ''  ''\<rparr>)) = lit ''  ''"
proof -
  let ?s = "mount (\<lambda>n c. Inr 3)\<lparr>input := lit '' hi ''\<rparr>"
  let ?d = "mount (\<lambda>n c. Inl (Exn 0))\<lparr>input := lit '' hi ''\<rparr>"
  let ?w = "mount (\<lambda>n c. Inr 3)\<lparr>input := lit ''  ''\<rparr>"
  have a: "chatSession ?s \<noteq> None"
    by (simp add: chatSession_def mount_def render_def initial_def chatSession_factory_def)
  have b: "trim (input ?s) \<noteq> []"
    by (simp add: trim_def lit_def isWhiteSpace_def)
  have d: "chatSession ?d = None"
    by (simp add: chatSession_def mount_def render_def initial_def chatSession_factory_def)
  have w: "trim (input ?w) = []"
    by (simp add: trim_def lit_def isWhiteSpace_def)
  from input_cleared_iff_accepted [of ?s] a b
  have 1: "input (handleSend ?s) = []" by blast
  from input_cleared_iff_accepted [of ?d] d
  have "handleSend ?d = ?d" by blast
  then have 2: "input (handleSend ?d) = lit '' hi ''" by simp
  from input_cleared_iff_accepted [of ?w] w
  have "handleSend ?w = ?w" by blast
  then have 3: "input (handleSend ?w) = lit ''  ''" by simp
  from a b d w 1 2 3 show ?thesis by blast
qed

text \<open>
  C10. Over any sequence of events the construction of the handle is attempted exactly
  once, with the fixed system instruction; the handle of the session stays the result
  of that first attempt (also when it failed), and every request issued is on that
  handle.
\<close>

theorem single_handle:
  "attempts (run gw evs (mount gw)) = [the_config]
   \<and> systemInstruction the_config = SYSTEM_INSTRUCTION
   \<and> chatSession (run gw evs (mount gw)) = chatSession_factory (gw 0 the_config)
   \<and> (\<forall>q\<in>set (sent (run gw evs (mount gw))).
        chatSession_factory (gw 0 the_config) = Some (handle q))"
proof -
  have m: "memo (mount gw) = Some (chatSession_factory (gw 0 the_config))"
    "attempts (mount gw) = [the_config]" "sent (mount gw) = []"
    by (simp_all add: mount_def render_def initial_def)
  from run_mounted [OF m(1), of gw evs] m(2)
  have r: "memo (run gw evs (mount gw)) = Some (chatSession_factory (gw 0 the_config))"
    "attempts (run gw evs (mount gw)) = [the_config]"
    by simp_all
  from handle_run [OF m(1), of gw evs] m(3)
  have "\<forall>q\<in>set (sent (run gw evs (mount gw))).
          chatSession_factory (gw 0 the_config) = Some (handle q)"
    by simp
  with r show ?thesis by (simp add: chatSession_def the_config_def)
qed

theorem single_handle_witness:
  "sent (run (\<lambda>n c. Inr (n + 5))
      [Change (lit ''a''), KeyDown Enter False, Settle 0 (Rejects (Exn 0)),
       Change (lit ''b''), Click] (mount (\<lambda>n c. Inr (n + 5))))
     = [\<lparr>handle = 5, message = lit ''a''\<rparr>, \<lparr>handle = 5, message = lit ''b''\<rparr>]
   \<and> chatSession (run (\<lambda>n c. Inr (n + 5))
      [Change (lit ''a''), KeyDown Enter False, Settle 0 (Rejects (Exn 0)),
       Change (lit ''b''), Click] (mount (\<lambda>n c. Inr (n + 5)))) = Some 5
   \<and> attempts (run (\<lambda>n c. Inr (n + 5))
      [Change (lit ''a''), KeyDown Enter False, Settle 0 (Rejects (Exn 0)),
       Change (lit ''b''), Click] (mount (\<lambda>n c. Inr (n + 5)))) = [the_config]"
proof -
  let ?gw = "\<lambda>(n::nat) (c::chat_config). (Inr (n + 5) :: exn + handle)"
  let ?evs = "[Change (lit ''a''), KeyDown Enter False, Settle 0 (Rejects (Exn 0)),
       Change (lit ''b''), Click]"
  have s: "sent (run ?gw ?evs (mount ?gw))
     = [\<lparr>handle = 5, message = lit ''a''\<rparr>, \<lparr>handle = 5, message = lit ''b''\<rparr>]"
    by (simp add: step_def render_def mount_def initial_def chatSession_factory_def
        handleSend_def handleSend_updates_def sendMessage_def chatSession_def Let_def
        settle_def handleSend_resume_eq handleKeyPress_def button_disabled_def
        trim_def lit_def isWhiteSpace_def)
  from single_handle [of ?gw ?evs] s show ?thesis
    by (simp add: chatSession_factory_def)
qed

end
